theory Spec2Isabelle
  imports Complex_Main "HOL-Library.Char_ord" "HOL-Library.List_Lexorder"
begin

section \<open>Python floats\<close>

text \<open>
  The four measurements are Python floats. Only comparisons against exactly representable
  constants are made on them by the validator and the classifier, so a float is modelled by
  its value: a finite real, one of the two infinities, or NaN. Every comparison with NaN is
  false, as in IEEE 754.
\<close>

datatype pyfloat = Finite real | PosInf | NegInf | NaN

fun fle :: "pyfloat \<Rightarrow> pyfloat \<Rightarrow> bool" where
  "fle NaN _ = False"
| "fle _ NaN = False"
| "fle NegInf _ = True"
| "fle _ PosInf = True"
| "fle (Finite x) (Finite y) = (x \<le> y)"
| "fle (Finite x) NegInf = False"
| "fle PosInf (Finite y) = False"
| "fle PosInf NegInf = False"

fun flt :: "pyfloat \<Rightarrow> pyfloat \<Rightarrow> bool" where
  "flt NaN _ = False"
| "flt _ NaN = False"
| "flt PosInf _ = False"
| "flt _ NegInf = False"
| "flt (Finite x) (Finite y) = (x < y)"
| "flt (Finite x) PosInf = True"
| "flt NegInf (Finite y) = True"
| "flt NegInf PosInf = True"

text \<open>
  Python's \<open>max(a, b)\<close> and \<open>min(a, b)\<close> keep the first argument unless the second is
  strictly greater, respectively smaller.
\<close>

definition py_max :: "pyfloat \<Rightarrow> pyfloat \<Rightarrow> pyfloat" where
  "py_max a b = (if flt a b then b else a)"

definition py_min :: "pyfloat \<Rightarrow> pyfloat \<Rightarrow> pyfloat" where
  "py_min a b = (if flt b a then b else a)"

text \<open>
  Float division. The quotient of two finite values is taken without rounding; rounding to
  the nearest float is monotone and keeps 0 and 1, which is all that is asked of a quotient
  below. A zero divisor does not occur where the function is used (the divisor is at least
  the upper bound of a safe range), and its equation stands for no behaviour of the code.
\<close>

fun fdiv :: "pyfloat \<Rightarrow> pyfloat \<Rightarrow> pyfloat" where
  "fdiv NaN _ = NaN"
| "fdiv _ NaN = NaN"
| "fdiv (Finite x) (Finite y) = (if y = 0 then NaN else Finite (x / y))"
| "fdiv (Finite x) PosInf = Finite 0"
| "fdiv (Finite x) NegInf = Finite 0"
| "fdiv PosInf (Finite y) = (if 0 \<le> y then PosInf else NegInf)"
| "fdiv NegInf (Finite y) = (if 0 \<le> y then NegInf else PosInf)"
| "fdiv PosInf PosInf = NaN"
| "fdiv PosInf NegInf = NaN"
| "fdiv NegInf PosInf = NaN"
| "fdiv NegInf NegInf = NaN"

text \<open>The exceptions that the modelled code can raise.\<close>

datatype py_error =
  RequestException | JSONDecodeError | TypeError | KeyError | StreamlitAPIException

text \<open>The closed interval of the reals, read on floats: what "inside [lo, hi]" means.\<close>

definition in_interval :: "real \<Rightarrow> real \<Rightarrow> pyfloat \<Rightarrow> bool" where
  "in_interval lo hi v = (case v of Finite x \<Rightarrow> lo \<le> x \<and> x \<le> hi | _ \<Rightarrow> False)"

section \<open>Reading validator (2_Manual_Input.py, validate_data)\<close>

definition warn_pH :: string where
  "warn_pH = ''pH level is outside the typical safe range (6.5 - 8.5).''"

definition warn_turbidity :: string where
  "warn_turbidity = ''Turbidity is outside the typical safe range (0 - 5 NTU).''"

definition warn_dissolved_oxygen :: string where
  "warn_dissolved_oxygen = ''Dissolved Oxygen is outside the typical safe range (5 - 14 mg/L).''"

definition warn_nitrate :: string where
  "warn_nitrate = ''Nitrate level is outside the safe range (0 - 10 mg/L).''"

text \<open>
  The function starts from the empty list and runs four independent \<open>if\<close> statements, each
  appending to the list built so far. A chained comparison \<open>a <= x <= b\<close> is
  \<open>a <= x and x <= b\<close>.
\<close>

definition validate_data :: "pyfloat \<Rightarrow> pyfloat \<Rightarrow> pyfloat \<Rightarrow> pyfloat \<Rightarrow> string list" where
  "validate_data pH turbidity dissolved_oxygen nitrate =
    (let validation_warnings = [];
         validation_warnings =
           (if \<not> (fle (Finite 6.5) pH \<and> fle pH (Finite 8.5))
            then validation_warnings @ [warn_pH] else validation_warnings);
         validation_warnings =
           (if \<not> (fle (Finite 0) turbidity \<and> fle turbidity (Finite 5))
            then validation_warnings @ [warn_turbidity] else validation_warnings);
         validation_warnings =
           (if \<not> (fle (Finite 5) dissolved_oxygen \<and> fle dissolved_oxygen (Finite 14))
            then validation_warnings @ [warn_dissolved_oxygen] else validation_warnings);
         validation_warnings =
           (if \<not> (fle (Finite 0) nitrate \<and> fle nitrate (Finite 10))
            then validation_warnings @ [warn_nitrate] else validation_warnings)
     in validation_warnings)"

section \<open>Safe ranges and the learning page (Home_page.py)\<close>

datatype param = P_pH | P_Turbidity | P_Dissolved_Oxygen | P_Nitrate

text \<open>The dictionary \<open>safe_ranges\<close>, the same in all three files: parameter to (low, high).\<close>

fun safe_ranges :: "param \<Rightarrow> pyfloat \<times> pyfloat" where
  "safe_ranges P_pH = (Finite 6.5, Finite 8.5)"
| "safe_ranges P_Turbidity = (Finite 0, Finite 5)"
| "safe_ranges P_Dissolved_Oxygen = (Finite 5, Finite 14)"
| "safe_ranges P_Nitrate = (Finite 0, Finite 10)"

text \<open>
  One row of \<open>latest_data\<close>: the per-zip means of the four parameters. A mean is NaN when
  the group has no numeric value for the parameter.
\<close>

record zip_summary =
  s_Zipcode :: string
  s_pH :: pyfloat
  s_Turbidity :: pyfloat
  s_Dissolved_Oxygen :: pyfloat
  s_Nitrate :: pyfloat

fun row_value :: "zip_summary \<Rightarrow> param \<Rightarrow> pyfloat" where
  "row_value row P_pH = s_pH row"
| "row_value row P_Turbidity = s_Turbidity row"
| "row_value row P_Dissolved_Oxygen = s_Dissolved_Oxygen row"
| "row_value row P_Nitrate = s_Nitrate row"

datatype verdict = Safe | Alert

text \<open>
  \<open>st.progress(value)\<close> of the Streamlit library accepts a float between 0.0 and 1.0 and
  raises StreamlitAPIException for any other float.
\<close>

definition st_progress :: "pyfloat \<Rightarrow> py_error + unit" where
  "st_progress v =
    (if fle (Finite 0) v \<and> fle v (Finite 1) then Inr () else Inl StreamlitAPIException)"

text \<open>
  Lines 82 to 102 of Home_page.py: what the page does for one parameter of one row. When the
  value is NaN the page prints "No data available" and computes no status (\<open>None\<close>).
  Otherwise it computes the status (line 85), prints it, and draws the progress bar of
  lines 94 to 96, which raises when its argument is not accepted.
\<close>

definition show_param :: "zip_summary \<Rightarrow> param \<Rightarrow> py_error + verdict option" where
  "show_param row p =
    (let current_value = row_value row p in
     if current_value \<noteq> NaN then
       (let in_safe_range = (fle (fst (safe_ranges p)) current_value
                             \<and> fle current_value (snd (safe_ranges p)));
            status = (if in_safe_range then Safe else Alert);
            safe_max = snd (safe_ranges p);
            max_display = py_max safe_max current_value
        in case st_progress (py_min (fdiv current_value max_display) (Finite 1)) of
             Inl e \<Rightarrow> Inl e
           | Inr u \<Rightarrow> Inr (Some status))
     else Inr None)"

text \<open>
  Lines 74 to 102: the loop over \<open>learning_info.items()\<close>, which holds the four parameters
  in the order pH, Turbidity, Dissolved Oxygen, Nitrate. An exception ends the run.
\<close>

fun show_params :: "zip_summary \<Rightarrow> param list \<Rightarrow> py_error + verdict option list" where
  "show_params row [] = Inr []"
| "show_params row (p # ps) =
    (case show_param row p of
       Inl e \<Rightarrow> Inl e
     | Inr status \<Rightarrow>
        (case show_params row ps of Inl e \<Rightarrow> Inl e | Inr statuses \<Rightarrow> Inr (status # statuses)))"

definition learning_info :: "param list" where
  "learning_info = [P_pH, P_Turbidity, P_Dissolved_Oxygen, P_Nitrate]"

text \<open>
  Lines 106 to 109 of Home_page.py: the condition of the "General Water Safety" message
  "All parameters in this area are within safe levels!".
\<close>

definition general_water_safety :: "zip_summary \<Rightarrow> bool" where
  "general_water_safety row =
    list_all (\<lambda>b. b)
      [fle (fst (safe_ranges P_pH)) (s_pH row) \<and> fle (s_pH row) (snd (safe_ranges P_pH)),
       fle (s_Turbidity row) (snd (safe_ranges P_Turbidity)),
       fle (fst (safe_ranges P_Dissolved_Oxygen)) (s_Dissolved_Oxygen row)
         \<and> fle (s_Dissolved_Oxygen row) (snd (safe_ranges P_Dissolved_Oxygen)),
       fle (s_Nitrate row) (snd (safe_ranges P_Nitrate))]"

text \<open>
  Lines 69 to 112 for one row of \<open>latest_data\<close>: the four statuses shown, then the verdict
  (\<open>True\<close> for the success message, \<open>False\<close> for the error message), unless a progress bar
  raised before the verdict was reached.
\<close>

definition area_overview :: "zip_summary \<Rightarrow> py_error + verdict option list \<times> bool" where
  "area_overview row =
    (case show_params row learning_info of
       Inl e \<Rightarrow> Inl e
     | Inr statuses \<Rightarrow> Inr (statuses, general_water_safety row))"

section \<open>Coordinate resolver (2_Manual_Input.py)\<close>

type_synonym coord = "real \<times> real"

text \<open>The dictionary \<open>known_zipcode_coords\<close>, in insertion order, which is its iteration order.\<close>

definition known_zipcode_coords :: "(string \<times> coord) list" where
  "known_zipcode_coords =
    [(''95110'', (37.3422, -121.8996)),
     (''95112'', (37.3535, -121.8865)),
     (''95113'', (37.3333, -121.8907)),
     (''95116'', (37.3496, -121.8569)),
     (''95117'', (37.3126, -121.9502)),
     (''95118'', (37.2505, -121.8891)),
     (''95120'', (37.2060, -121.8133))]"

text \<open>
  \<open>get_nearest_zipcode\<close>. The distance \<open>geodesic(a, b).miles\<close> comes from the geopy
  library, which is not part of the repository: it is the parameter \<open>geodesic\<close>, a finite
  number of miles. The loop state is the pair (\<open>min_distance\<close>, \<open>nearest_zipcode\<close>),
  which starts as (\<open>float("inf")\<close>, \<open>None\<close>).
\<close>

fun nearest_loop ::
  "(coord \<Rightarrow> coord \<Rightarrow> real) \<Rightarrow> coord \<Rightarrow> (string \<times> coord) list
     \<Rightarrow> pyfloat \<times> string option \<Rightarrow> pyfloat \<times> string option" where
  "nearest_loop geodesic p [] (min_distance, nearest_zipcode) = (min_distance, nearest_zipcode)"
| "nearest_loop geodesic p ((zipcode, coord) # rest) (min_distance, nearest_zipcode) =
    (let distance = Finite (geodesic p coord) in
     if flt distance min_distance
     then nearest_loop geodesic p rest (distance, Some zipcode)
     else nearest_loop geodesic p rest (min_distance, nearest_zipcode))"

definition get_nearest_zipcode :: "(coord \<Rightarrow> coord \<Rightarrow> real) \<Rightarrow> real \<Rightarrow> real \<Rightarrow> string option" where
  "get_nearest_zipcode geodesic lat lon =
     snd (nearest_loop geodesic (lat, lon) known_zipcode_coords (PosInf, None))"

text \<open>
  \<open>get_zipcode_from_coordinates\<close> calls the Nominatim service. What the call does is an
  input of the model: \<open>requests.get\<close> either raises (no connection, timeout) or returns a
  response with a status code and a body, and \<open>response.json()\<close> either raises (the body
  is not JSON) or returns the decoded value. The function has no \<open>try\<close>: an exception
  raised inside it leaves it.
\<close>

datatype json =
    JNull | JBool bool | JNum real | JStr string
  | JArr "json list" | JObj "(string \<times> json) list"

datatype body = Not_Json | Json json

datatype http_outcome = Request_Raises | Response int body

fun is_substring :: "string \<Rightarrow> string \<Rightarrow> bool" where
  "is_substring k [] = (k = [])"
| "is_substring k (c # cs) = (take (length k) (c # cs) = k \<or> is_substring k cs)"

text \<open>
  Python's \<open>key in data\<close> and \<open>data[key]\<close> for a string key, on a decoded JSON value: a
  dictionary is asked for the key, a list for an element equal to the key, a string for a
  substring; a number, a boolean and \<open>None\<close> raise TypeError, and so does indexing a list
  or a string with a string.
\<close>

fun py_in :: "string \<Rightarrow> json \<Rightarrow> py_error + bool" where
  "py_in k (JObj kvs) = Inr (k \<in> set (map fst kvs))"
| "py_in k (JArr xs) = Inr (JStr k \<in> set xs)"
| "py_in k (JStr s) = Inr (is_substring k s)"
| "py_in k _ = Inl TypeError"

fun py_getitem :: "json \<Rightarrow> string \<Rightarrow> py_error + json" where
  "py_getitem (JObj kvs) k = (case map_of kvs k of Some v \<Rightarrow> Inr v | None \<Rightarrow> Inl KeyError)"
| "py_getitem _ k = Inl TypeError"

text \<open>The value returned by the fallback, as a Python value: a string or \<open>None\<close>.\<close>

definition nearest_value :: "(coord \<Rightarrow> coord \<Rightarrow> real) \<Rightarrow> real \<Rightarrow> real \<Rightarrow> json" where
  "nearest_value geodesic lat lon =
     (case get_nearest_zipcode geodesic lat lon of None \<Rightarrow> JNull | Some z \<Rightarrow> JStr z)"

definition get_zipcode_from_coordinates ::
  "(coord \<Rightarrow> coord \<Rightarrow> real) \<Rightarrow> http_outcome \<Rightarrow> real \<Rightarrow> real \<Rightarrow> py_error + json" where
  "get_zipcode_from_coordinates geodesic outcome lat lon =
    (case outcome of
       Request_Raises \<Rightarrow> Inl RequestException
     | Response status_code b \<Rightarrow>
         if status_code = 200 then
           (case b of
              Not_Json \<Rightarrow> Inl JSONDecodeError
            | Json data \<Rightarrow>
               (case py_in ''address'' data of
                  Inl e \<Rightarrow> Inl e
                | Inr False \<Rightarrow> Inr (nearest_value geodesic lat lon)
                | Inr True \<Rightarrow>
                   (case py_getitem data ''address'' of
                      Inl e \<Rightarrow> Inl e
                    | Inr address \<Rightarrow>
                       (case py_in ''postcode'' address of
                          Inl e \<Rightarrow> Inl e
                        | Inr False \<Rightarrow> Inr (nearest_value geodesic lat lon)
                        | Inr True \<Rightarrow> py_getitem address ''postcode''))))
         else Inr (nearest_value geodesic lat lon))"

section \<open>The data file\<close>

text \<open>
  The file \<open>san_jose_water_quality_user_data.csv\<close> has the header
  \<open>Zipcode,Date,pH,Turbidity,Dissolved Oxygen,Nitrate\<close> and one line per reading. A line is
  modelled by its fields: the zip code and the date as the text written, each measurement as
  the float it is read as: a finite number, one of the two infinities, or \<open>NotNumber\<close> when
  the field is empty or is text that pandas does not read as a number. Writing a float and
  reading it again is taken to give the same float.
\<close>

datatype cell = Number real | Plus_Infinity | Minus_Infinity | NotNumber

record file_row =
  f_Zipcode :: string
  f_Date :: string
  f_pH :: cell
  f_Turbidity :: cell
  f_Dissolved_Oxygen :: cell
  f_Nitrate :: cell

text \<open>A row of a DataFrame read from the file; \<open>'v\<close> is what a measurement column holds.\<close>

record 'v data_row =
  c_Zipcode :: "string option"
  c_Date :: string
  c_pH :: 'v
  c_Turbidity :: 'v
  c_Dissolved_Oxygen :: 'v
  c_Nitrate :: 'v

text \<open>
  The strings \<open>read_csv\<close> reads as a missing value (its default \<open>na_values\<close>), also in a
  column read with \<open>dtype=str\<close>.
\<close>

definition na_values :: "string list" where
  "na_values =
    ['''', ''#N/A'', ''#N/A N/A'', ''#NA'', ''-1.#IND'', ''-1.#QNAN'', ''-NaN'', ''-nan'',
     ''1.#IND'', ''1.#QNAN'', ''<NA>'', ''N/A'', ''NA'', ''NULL'', ''NaN'', ''None'',
     ''n/a'', ''nan'', ''null'']"

definition read_str :: "string \<Rightarrow> string option" where
  "read_str t = (if t \<in> set na_values then None else Some t)"

text \<open>\<open>pd.read_csv(file_path, dtype={"Zipcode": str})\<close>, row by row.\<close>

definition read_row :: "file_row \<Rightarrow> cell data_row" where
  "read_row r =
    \<lparr>c_Zipcode = read_str (f_Zipcode r), c_Date = f_Date r, c_pH = f_pH r,
     c_Turbidity = f_Turbidity r, c_Dissolved_Oxygen = f_Dissolved_Oxygen r,
     c_Nitrate = f_Nitrate r\<rparr>"

definition read_csv_str :: "file_row list \<Rightarrow> cell data_row list" where
  "read_csv_str rows = map read_row rows"

section \<open>Record store (2_Manual_Input.py)\<close>

text \<open>
  Lines 42 and 43 run before anything else on the page touches the file: a missing file
  (\<open>None\<close>) is created with the header and no row. From there on the store is the list
  of the rows below the header.
\<close>

definition create_if_missing :: "file_row list option \<Rightarrow> file_row list" where
  "create_if_missing file = (case file of None \<Rightarrow> [] | Some rows \<Rightarrow> rows)"

text \<open>What the form hands to the "Submit Data" handler.\<close>

record reading =
  r_zipcode :: string
  r_date :: string
  r_ph_level :: real
  r_turbidity :: real
  r_dissolved_oxygen :: real
  r_nitrate :: real

text \<open>Lines 114 to 122: a one-row frame written with \<open>mode='a', header=False\<close>.\<close>

definition new_data :: "reading \<Rightarrow> file_row" where
  "new_data r =
    \<lparr>f_Zipcode = r_zipcode r, f_Date = r_date r, f_pH = Number (r_ph_level r),
     f_Turbidity = Number (r_turbidity r),
     f_Dissolved_Oxygen = Number (r_dissolved_oxygen r), f_Nitrate = Number (r_nitrate r)\<rparr>"

definition append_reading :: "reading \<Rightarrow> file_row list \<Rightarrow> file_row list" where
  "append_reading r rows = rows @ [new_data r]"

text \<open>
  \<open>recent_data.to_csv(file_path, index=False)\<close>: the frame written back over the file. A
  missing zip code is written as an empty field.
\<close>

definition write_row :: "cell data_row \<Rightarrow> file_row" where
  "write_row d =
    \<lparr>f_Zipcode = (case c_Zipcode d of None \<Rightarrow> [] | Some z \<Rightarrow> z), f_Date = c_Date d,
     f_pH = c_pH d, f_Turbidity = c_Turbidity d,
     f_Dissolved_Oxygen = c_Dissolved_Oxygen d, f_Nitrate = c_Nitrate d\<rparr>"

text \<open>
  The frame read from the file has the index 0, 1, ..., n - 1: each row goes with its label.
  Dropping rows leaves the labels of the other rows as they are.
\<close>

type_synonym frame = "(int \<times> cell data_row) list"

definition with_index :: "cell data_row list \<Rightarrow> frame" where
  "with_index xs = zip (map int [0..<length xs]) xs"

text \<open>\<open>recent_data.tail(5)\<close>: the last five rows, or all of them when there are fewer.\<close>

definition tail5 :: "frame \<Rightarrow> frame" where
  "tail5 frame = drop (length frame - 5) frame"

text \<open>\<open>recent_data.to_csv(file_path, index=False)\<close>: the rows, without the labels.\<close>

definition to_csv :: "frame \<Rightarrow> file_row list" where
  "to_csv frame = map (\<lambda>(label, row). write_row row) frame"

text \<open>
  \<open>DataFrame.drop(idx)\<close>: a label that is not in the index raises KeyError, otherwise the
  row with that label goes.
\<close>

definition drop_label :: "int \<Rightarrow> frame \<Rightarrow> py_error + frame" where
  "drop_label idx frame =
    (if idx \<in> set (map fst frame)
     then Inr (filter (\<lambda>(label, row). label \<noteq> idx) frame)
     else Inl KeyError)"

text \<open>
  Lines 136 to 145: the loop over \<open>recent_data.tail(5).iterrows()\<close>. The page draws one
  button "Delete Entry idx" with key \<open>delete_idx\<close> for each row of the tail; \<open>st.button\<close>
  returns \<open>True\<close> for the button whose press started this run of the script, and for no
  other. The press is the input \<open>pressed\<close>: the label of the pressed delete button, or
  \<open>None\<close> when the run was started by something else. The loop state is the pair
  (\<open>recent_data\<close>, file); the result is the outcome and the file afterwards. When \<open>drop\<close>
  raises, line 143 is not reached and the file is as it was.
\<close>

fun delete_loop ::
  "int option \<Rightarrow> frame \<Rightarrow> frame \<times> file_row list \<Rightarrow> (py_error + unit) \<times> file_row list" where
  "delete_loop pressed [] (recent_data, file) = (Inr (), file)"
| "delete_loop pressed ((idx, row) # rest) (recent_data, file) =
    (if pressed = Some idx then
       (case drop_label idx recent_data of
          Inl e \<Rightarrow> (Inl e, file)
        | Inr recent_data' \<Rightarrow> delete_loop pressed rest (recent_data', to_csv recent_data'))
     else delete_loop pressed rest (recent_data, file))"

text \<open>
  Lines 133 to 147: the section "Review Recent Data Submissions". The file exists, since
  lines 42 and 43 have run.
\<close>

definition review_entries :: "int option \<Rightarrow> file_row list \<Rightarrow> (py_error + unit) \<times> file_row list" where
  "review_entries pressed file =
    (let recent_data = with_index (read_csv_str file) in
     if recent_data \<noteq> [] then delete_loop pressed (tail5 recent_data) (recent_data, file)
     else (Inr (), file))"

text \<open>The data model's invariant on a zip code: five decimal digits.\<close>

definition is_zip_code :: "string \<Rightarrow> bool" where
  "is_zip_code z = (length z = 5 \<and> list_all (\<lambda>c. c \<in> set ''0123456789'') z)"

text \<open>A stored reading as the page reads it back.\<close>

definition as_read :: "reading \<Rightarrow> cell data_row" where
  "as_read r =
    \<lparr>c_Zipcode = Some (r_zipcode r), c_Date = r_date r, c_pH = Number (r_ph_level r),
     c_Turbidity = Number (r_turbidity r),
     c_Dissolved_Oxygen = Number (r_dissolved_oxygen r), c_Nitrate = Number (r_nitrate r)\<rparr>"

section \<open>Reading the zip code column without a dtype (Home_page.py, line 57)\<close>

text \<open>
  \<open>pd.read_csv(file_path)\<close> infers the type of each column. A column in which every field
  is a run of decimal digits that fits 64 bits becomes an integer column. Every other
  outcome of the inference (text, floats, missing values) is \<open>Other_Column\<close> and is not
  modelled further.
\<close>

datatype zip_column = Int_Column "int list" | Other_Column

definition digit_value :: "char \<Rightarrow> int" where
  "digit_value c = int (of_char c) - 48"

definition int_of_digits :: "string \<Rightarrow> int" where
  "int_of_digits t = foldl (\<lambda>acc c. 10 * acc + digit_value c) 0 t"

definition is_int_text :: "string \<Rightarrow> bool" where
  "is_int_text t =
    (t \<noteq> [] \<and> list_all (\<lambda>c. c \<in> set ''0123456789'') t \<and> int_of_digits t < 2 ^ 63)"

definition read_csv_zip_inferred :: "file_row list \<Rightarrow> zip_column" where
  "read_csv_zip_inferred rows =
    (if rows \<noteq> [] \<and> list_all (\<lambda>r. is_int_text (f_Zipcode r)) rows
     then Int_Column (map (\<lambda>r. int_of_digits (f_Zipcode r)) rows)
     else Other_Column)"

section \<open>Aggregator (3_OrgUseData_Dashboard.py)\<close>

text \<open>
  \<open>pd.to_numeric(data[col], errors="coerce")\<close>: the column becomes a column of floats, and
  what is not a number becomes NaN.
\<close>

fun to_numeric :: "cell \<Rightarrow> pyfloat" where
  "to_numeric (Number x) = Finite x"
| "to_numeric Plus_Infinity = PosInf"
| "to_numeric Minus_Infinity = NegInf"
| "to_numeric NotNumber = NaN"

definition coerce_row :: "cell data_row \<Rightarrow> pyfloat data_row" where
  "coerce_row d =
    \<lparr>c_Zipcode = c_Zipcode d, c_Date = c_Date d, c_pH = to_numeric (c_pH d),
     c_Turbidity = to_numeric (c_Turbidity d),
     c_Dissolved_Oxygen = to_numeric (c_Dissolved_Oxygen d),
     c_Nitrate = to_numeric (c_Nitrate d)\<rparr>"

text \<open>Line 31: \<open>dropna(subset=[the four columns], how="all")\<close>.\<close>

definition dropna_all :: "pyfloat data_row list \<Rightarrow> pyfloat data_row list" where
  "dropna_all frame =
    filter (\<lambda>d. \<not> (c_pH d = NaN \<and> c_Turbidity d = NaN
                    \<and> c_Dissolved_Oxygen d = NaN \<and> c_Nitrate d = NaN)) frame"

text \<open>
  The mean of a column of a group: NaN values are skipped; with none left it is NaN.
  The mean of the values that are left is computed by pandas in float64, with rounding;
  pandas is not part of the repository, and its mean of a list of floats is the parameter
  \<open>mean\<close>.
\<close>

definition mean_skipna :: "(pyfloat list \<Rightarrow> pyfloat) \<Rightarrow> pyfloat list \<Rightarrow> pyfloat" where
  "mean_skipna mean col =
    (let vals = filter (\<lambda>v. v \<noteq> NaN) col in
     if vals = [] then NaN else mean vals)"

text \<open>
  \<open>groupby("Zipcode").mean(numeric_only=True).reset_index()\<close>: rows with a missing key
  belong to no group, and the groups come in ascending order of the key.
\<close>

definition group_mean ::
  "(pyfloat list \<Rightarrow> pyfloat) \<Rightarrow> pyfloat data_row list \<Rightarrow> string \<Rightarrow> zip_summary" where
  "group_mean mean frame key =
    (let grp = filter (\<lambda>d. c_Zipcode d = Some key) frame in
     \<lparr>s_Zipcode = key, s_pH = mean_skipna mean (map c_pH grp),
      s_Turbidity = mean_skipna mean (map c_Turbidity grp),
      s_Dissolved_Oxygen = mean_skipna mean (map c_Dissolved_Oxygen grp),
      s_Nitrate = mean_skipna mean (map c_Nitrate grp)\<rparr>)"

definition groupby_zipcode_mean ::
  "(pyfloat list \<Rightarrow> pyfloat) \<Rightarrow> pyfloat data_row list \<Rightarrow> zip_summary list" where
  "groupby_zipcode_mean mean frame =
    map (group_mean mean frame) (sort (remdups [z. Some z \<leftarrow> map c_Zipcode frame]))"

text \<open>Lines 23 to 31 and 101: from the file to \<open>zipcode_summary\<close>.\<close>

definition zipcode_summary :: "(pyfloat list \<Rightarrow> pyfloat) \<Rightarrow> file_row list \<Rightarrow> zip_summary list" where
  "zipcode_summary mean rows =
    groupby_zipcode_mean mean (dropna_all (map coerce_row (read_csv_str rows)))"

section \<open>Notions used to state the properties\<close>

text \<open>
  The numbers of a column of the file in file order, their mean (NaN when there is none),
  the rows of the file that carry a given zip code, and the rows with a number in at least
  one of the four measurement fields.
\<close>

fun is_number :: "cell \<Rightarrow> bool" where
  "is_number (Number x) = True"
| "is_number Plus_Infinity = True"
| "is_number Minus_Infinity = True"
| "is_number NotNumber = False"





definition has_number :: "file_row \<Rightarrow> bool" where
  "has_number r = (is_number (f_pH r) \<or> is_number (f_Turbidity r)
                   \<or> is_number (f_Dissolved_Oxygen r) \<or> is_number (f_Nitrate r))"

text \<open>The frame the dashboard groups: read, coerced, with the all-NaN rows dropped.\<close>

definition frame_of :: "file_row list \<Rightarrow> pyfloat data_row list" where
  "frame_of rows = dropna_all (map coerce_row (read_csv_str rows))"

text \<open>
  The mean of a list of floats without rounding. It stands for the mean pandas computes in
  the concrete cases below, whose sums and quotients are exact in float64.
\<close>

definition exact_mean :: "pyfloat list \<Rightarrow> pyfloat" where
  "exact_mean vs =
    (if NaN \<in> set vs \<or> (PosInf \<in> set vs \<and> NegInf \<in> set vs) then NaN
     else if PosInf \<in> set vs then PosInf
     else if NegInf \<in> set vs then NegInf
     else Finite (sum_list [x. Finite x \<leftarrow> vs] / real (length vs)))"

text \<open>
  A response that carries no postal code: a status other than 200, or a decoded JSON object
  without an \<open>address\<close> entry, or whose \<open>address\<close> object has no \<open>postcode\<close> entry.
\<close>

fun lacks_postcode :: "json \<Rightarrow> bool" where
  "lacks_postcode (JObj kvs) =
     (case map_of kvs ''address'' of
        None \<Rightarrow> True
      | Some (JObj avs) \<Rightarrow> map_of avs ''postcode'' = None
      | Some _ \<Rightarrow> False)"
| "lacks_postcode _ = False"

definition lookup_failed :: "http_outcome \<Rightarrow> bool" where
  "lookup_failed outcome =
    (case outcome of
       Request_Raises \<Rightarrow> False
     | Response status_code b \<Rightarrow>
         status_code \<noteq> 200 \<or> (case b of Not_Json \<Rightarrow> False | Json data \<Rightarrow> lacks_postcode data))"

text \<open>
  The verdict of a parameter as the specification words it: Safe exactly when the mean lies
  within the bounds used by the validator, both included; no verdict for a missing mean.
\<close>

fun in_range :: "param \<Rightarrow> pyfloat \<Rightarrow> bool" where
  "in_range P_pH v = in_interval 6.5 8.5 v"
| "in_range P_Turbidity v = in_interval 0 5 v"
| "in_range P_Dissolved_Oxygen v = in_interval 5 14 v"
| "in_range P_Nitrate v = in_interval 0 10 v"

definition classify :: "zip_summary \<Rightarrow> param \<Rightarrow> verdict option" where
  "classify row p =
    (if row_value row p = NaN then None
     else Some (if in_range p (row_value row p) then Safe else Alert))"

definition overall_safe :: "zip_summary \<Rightarrow> bool" where
  "overall_safe row = list_all (\<lambda>p. classify row p = Some Safe) learning_info"

text \<open>A mean that is missing, or finite and not negative.\<close>

fun displayable :: "pyfloat \<Rightarrow> bool" where
  "displayable NaN = True"
| "displayable (Finite x) = (0 \<le> x)"
| "displayable PosInf = False"
| "displayable NegInf = False"

subsection \<open>Concrete inputs\<close>

text \<open>A distance under which every known location is equally far: all distances tie.\<close>

definition equidistant :: "coord \<Rightarrow> coord \<Rightarrow> real" where
  "equidistant a b = 1"

text \<open>The form's default values, for zip code 95110.\<close>

definition sample_reading :: reading where
  "sample_reading =
    \<lparr>r_zipcode = ''95110'', r_date = ''2024-11-03'', r_ph_level = 7, r_turbidity = 1,
     r_dissolved_oxygen = 8, r_nitrate = 1\<rparr>"

definition two_readings :: "file_row list" where
  "two_readings =
    [new_data (sample_reading\<lparr>r_ph_level := 7\<rparr>), new_data (sample_reading\<lparr>r_ph_level := 8\<rparr>)]"

definition unreadable_row :: file_row where
  "unreadable_row =
    \<lparr>f_Zipcode = ''95110'', f_Date = ''2024-11-03'', f_pH = NotNumber, f_Turbidity = NotNumber,
     f_Dissolved_Oxygen = NotNumber, f_Nitrate = NotNumber\<rparr>"

definition turbidity_six_summary :: zip_summary where
  "turbidity_six_summary =
    \<lparr>s_Zipcode = ''95110'', s_pH = Finite 7, s_Turbidity = Finite 6,
     s_Dissolved_Oxygen = Finite 8, s_Nitrate = Finite 1\<rparr>"

definition negative_turbidity_summary :: zip_summary where
  "negative_turbidity_summary =
    \<lparr>s_Zipcode = ''95110'', s_pH = Finite 7, s_Turbidity = Finite (- 1),
     s_Dissolved_Oxygen = Finite 8, s_Nitrate = Finite 1\<rparr>"

section \<open>The validator\<close>

lemma fle_interval: "fle (Finite lo) v \<and> fle v (Finite hi) \<longleftrightarrow> in_interval lo hi v"
  by (cases v) (simp_all add: in_interval_def)

lemma validate_data_eq:
  "validate_data p t d n =
     (if in_interval 6.5 8.5 p then [] else [warn_pH]) @
     (if in_interval 0 5 t then [] else [warn_turbidity]) @
     (if in_interval 5 14 d then [] else [warn_dissolved_oxygen]) @
     (if in_interval 0 10 n then [] else [warn_nitrate])"
  by (simp add: validate_data_def Let_def fle_interval)

text \<open>
  Claim C1. For all four floats, NaN and the infinities included, \<open>validate_data\<close> returns
  a list; the list is empty exactly when pH is in [6.5, 8.5], turbidity in [0, 5], dissolved
  oxygen in [5, 14] and nitrate in [0, 10], bounds included. The list holds, in the order
  pH, turbidity, dissolved oxygen, nitrate, the warning of each parameter that is out of its
  range, once; the four warnings are different strings and each begins with the name of its
  parameter.
\<close>

theorem validate_data_spec:
  "(validate_data p t d n = [] \<longleftrightarrow>
      in_interval 6.5 8.5 p \<and> in_interval 0 5 t \<and> in_interval 5 14 d \<and> in_interval 0 10 n)
   \<and> validate_data p t d n =
      map snd (filter (\<lambda>(ok, w). \<not> ok)
        [(in_interval 6.5 8.5 p, warn_pH), (in_interval 0 5 t, warn_turbidity),
         (in_interval 5 14 d, warn_dissolved_oxygen), (in_interval 0 10 n, warn_nitrate)])
   \<and> distinct [warn_pH, warn_turbidity, warn_dissolved_oxygen, warn_nitrate]
   \<and> take 2 warn_pH = ''pH'' \<and> take 9 warn_turbidity = ''Turbidity''
   \<and> take 16 warn_dissolved_oxygen = ''Dissolved Oxygen'' \<and> take 7 warn_nitrate = ''Nitrate''"
  by (simp add: validate_data_eq warn_pH_def warn_turbidity_def warn_dissolved_oxygen_def
      warn_nitrate_def)

text \<open>
  Claim C10. The number inputs of the form give pH in [6.5, 8.5], turbidity in [0, 10],
  dissolved oxygen in [5, 14] and nitrate in [0, 10]. On such values \<open>validate_data\<close>
  returns at most one warning, which is the turbidity warning, returned exactly when
  turbidity is above 5; the pH, dissolved oxygen and nitrate warnings are never returned.
\<close>

theorem form_input_only_turbidity_warning:
  assumes "in_interval 6.5 8.5 p" and "in_interval 0 10 t"
    and "in_interval 5 14 d" and "in_interval 0 10 n"
  shows "validate_data p t d n = (if in_interval 0 5 t then [] else [warn_turbidity])
       \<and> length (validate_data p t d n) \<le> 1
       \<and> warn_pH \<notin> set (validate_data p t d n)
       \<and> warn_dissolved_oxygen \<notin> set (validate_data p t d n)
       \<and> warn_nitrate \<notin> set (validate_data p t d n)"
  using assms
  by (simp add: validate_data_eq warn_pH_def warn_turbidity_def warn_dissolved_oxygen_def
      warn_nitrate_def)

text \<open>The form's values with turbidity 6: the one warning is the turbidity warning.\<close>

theorem form_input_only_turbidity_warning_witness:
  "in_interval 6.5 8.5 (Finite 7) \<and> in_interval 0 10 (Finite 6)
   \<and> in_interval 5 14 (Finite 8) \<and> in_interval 0 10 (Finite 1)
   \<and> validate_data (Finite 7) (Finite 6) (Finite 8) (Finite 1) = [warn_turbidity]"
proof -
  have h: "in_interval 6.5 8.5 (Finite 7)" "in_interval 0 10 (Finite 6)"
    "in_interval 5 14 (Finite 8)" "in_interval 0 10 (Finite 1)"
    by (simp_all add: in_interval_def)
  from form_input_only_turbidity_warning [OF h] h show ?thesis
    by (simp add: in_interval_def)
qed

section \<open>The safety verdict of the learning page\<close>

lemma progress_bar_drawn:
  assumes "displayable v" and "v \<noteq> NaN" and "0 < hi"
  shows "st_progress (py_min (fdiv v (py_max (Finite hi) v)) (Finite 1)) = Inr ()"
proof -
  from assms(1,2) obtain x where v: "v = Finite x" and x: "0 \<le> x"
    by (cases v) simp_all
  show ?thesis
  proof (cases "hi < x")
    case True
    with assms(3) have "x \<noteq> 0" by simp
    with True show ?thesis by (simp add: v py_max_def py_min_def st_progress_def)
  next
    case False
    with assms(3) x have "0 \<le> x / hi" and "x / hi \<le> 1" by simp_all
    with False assms(3) show ?thesis by (simp add: v py_max_def py_min_def st_progress_def)
  qed
qed

lemma show_param_classify:
  assumes "displayable (row_value row p)"
  shows "show_param row p = Inr (classify row p)"
proof (cases "row_value row p = NaN")
  case True
  then show ?thesis by (simp add: show_param_def classify_def)
next
  case False
  have pos: "\<exists>hi. snd (safe_ranges p) = Finite hi \<and> 0 < hi"
  proof (cases p)
    case P_pH
    then show ?thesis by (intro exI [of _ "8.5"]) simp
  next
    case P_Turbidity
    then show ?thesis by (intro exI [of _ 5]) simp
  next
    case P_Dissolved_Oxygen
    then show ?thesis by (intro exI [of _ 14]) simp
  next
    case P_Nitrate
    then show ?thesis by (intro exI [of _ 10]) simp
  qed
  then obtain hi where hi: "snd (safe_ranges p) = Finite hi" and "0 < hi" by blast
  with assms False
  have bar: "st_progress (py_min (fdiv (row_value row p) (py_max (snd (safe_ranges p)) (row_value row p)))
               (Finite 1)) = Inr ()"
    by (simp add: progress_bar_drawn)
  have rng: "(fle (fst (safe_ranges p)) (row_value row p) \<and> fle (row_value row p) (snd (safe_ranges p)))
              \<longleftrightarrow> in_range p (row_value row p)"
    by (cases p) (simp_all add: fle_interval)
  show ?thesis using False by (simp add: show_param_def classify_def Let_def bar rng)
qed

lemma upper_bound_only:
  assumes "displayable v" and "0 \<le> hi"
  shows "fle v (Finite hi) \<longleftrightarrow> in_interval 0 hi v"
  using assms by (cases v) (simp_all add: in_interval_def)

text \<open>
  Claim C2, as amended. For every per-zip summary whose four means are each missing or
  finite and not negative, the page reaches its verdict, the four statuses it shows are
  those of the specification (Safe exactly when the mean lies within the validator's
  inclusive bounds), and the verdict is the success message exactly when all four
  parameters are Safe.
\<close>

theorem area_overview_verdict:
  assumes "list_all (\<lambda>p. displayable (row_value row p)) learning_info"
  shows "area_overview row = Inr (map (classify row) learning_info, overall_safe row)"
proof -
  from assms have d: "displayable (s_pH row)" "displayable (s_Turbidity row)"
    "displayable (s_Dissolved_Oxygen row)" "displayable (s_Nitrate row)"
    by (simp_all add: learning_info_def)
  have st: "show_params row learning_info = Inr (map (classify row) learning_info)"
    using d by (simp add: learning_info_def show_param_classify)
  have t: "fle (s_Turbidity row) (Finite 5) \<longleftrightarrow> in_interval 0 5 (s_Turbidity row)"
    and n: "fle (s_Nitrate row) (Finite 10) \<longleftrightarrow> in_interval 0 10 (s_Nitrate row)"
    using d by (simp_all add: upper_bound_only)
  have safe: "\<And>p. classify row p = Some Safe \<longleftrightarrow> in_range p (row_value row p)"
  proof -
    fix p
    show "classify row p = Some Safe \<longleftrightarrow> in_range p (row_value row p)"
      by (cases p; cases "row_value row p") (simp_all add: classify_def in_interval_def)
  qed
  have v: "general_water_safety row = overall_safe row"
    by (simp add: general_water_safety_def overall_safe_def learning_info_def safe
        fle_interval t n)
  show ?thesis by (simp add: area_overview_def st v)
qed

text \<open>
  Means pH 7, turbidity 6, dissolved oxygen 8, nitrate 1: turbidity is shown as Alert and the
  verdict is the error message.
\<close>

theorem area_overview_verdict_witness:
  "list_all (\<lambda>p. displayable (row_value turbidity_six_summary p)) learning_info
   \<and> area_overview turbidity_six_summary
       = Inr ([Some Safe, Some Alert, Some Safe, Some Safe], False)"
proof -
  have h: "list_all (\<lambda>p. displayable (row_value turbidity_six_summary p)) learning_info"
    by (simp add: learning_info_def turbidity_six_summary_def)
  from area_overview_verdict [OF h] h show ?thesis
    by (simp add: learning_info_def turbidity_six_summary_def classify_def overall_safe_def
        in_interval_def)
qed

text \<open>
  Claim C2 as stated covers every summary. Lines 106 to 109 test turbidity and nitrate
  against their upper bound only. For the means pH 7, turbidity -1, dissolved oxygen 8,
  nitrate 1 that condition holds although turbidity is out of its range, and the page does
  not get as far as the verdict: the progress bar of the turbidity entry is asked for -0.2
  and raises.
\<close>

theorem area_overview_negative_turbidity:
  "area_overview negative_turbidity_summary = Inl StreamlitAPIException
   \<and> general_water_safety negative_turbidity_summary
   \<and> classify negative_turbidity_summary P_Turbidity = Some Alert"
  by (simp add: area_overview_def learning_info_def show_param_def st_progress_def py_max_def
      py_min_def general_water_safety_def classify_def negative_turbidity_summary_def
      in_interval_def Let_def)

section \<open>The coordinate resolver\<close>

text \<open>
  The loop over the table is a left fold: one more entry at the end is one more step on the
  state reached so far.
\<close>

lemma nearest_loop_snoc:
  "nearest_loop g p (xs @ [(z, c)]) st =
     (if flt (Finite (g p c)) (fst (nearest_loop g p xs st))
      then (Finite (g p c), Some z) else nearest_loop g p xs st)"
proof (induction xs arbitrary: st)
  case Nil
  show ?case by (cases st) (simp add: Let_def)
next
  case (Cons e xs)
  show ?case by (cases e; cases st) (simp add: Let_def Cons.IH)
qed

lemma nearest_loop_first_min:
  assumes "xs \<noteq> []"
  shows "\<exists>i<length xs.
           nearest_loop g p xs (PosInf, None) = (Finite (g p (snd (xs ! i))), Some (fst (xs ! i)))
           \<and> (\<forall>j<length xs. g p (snd (xs ! i)) \<le> g p (snd (xs ! j)))
           \<and> (\<forall>j<i. g p (snd (xs ! i)) < g p (snd (xs ! j)))"
  using assms
proof (induction xs rule: rev_induct)
  case Nil
  then show ?case by simp
next
  case (snoc e xs)
  obtain z c where e: "e = (z, c)" by (cases e)
  show ?case
  proof (cases "xs = []")
    case True
    then show ?thesis by (simp add: e Let_def)
  next
    case False
    from snoc.IH [OF False] obtain i where i: "i < length xs"
      and st: "nearest_loop g p xs (PosInf, None) = (Finite (g p (snd (xs ! i))), Some (fst (xs ! i)))"
      and mn: "\<forall>j<length xs. g p (snd (xs ! i)) \<le> g p (snd (xs ! j))"
      and fs: "\<forall>j<i. g p (snd (xs ! i)) < g p (snd (xs ! j))"
      by blast
    show ?thesis
    proof (cases "g p c < g p (snd (xs ! i))")
      case True
      have "nearest_loop g p (xs @ [e]) (PosInf, None) = (Finite (g p c), Some z)"
        using True by (simp add: e nearest_loop_snoc st)
      moreover have "\<forall>j<length (xs @ [e]). g p c \<le> g p (snd ((xs @ [e]) ! j))"
        using True mn by (auto simp: nth_append e less_Suc_eq intro: less_imp_le order_trans)
      moreover have "\<forall>j<length xs. g p c < g p (snd ((xs @ [e]) ! j))"
        using True mn by (auto simp: nth_append intro: less_le_trans)
      ultimately show ?thesis
        by (intro exI [of _ "length xs"]) (simp add: e)
    next
      case False
      have "nearest_loop g p (xs @ [e]) (PosInf, None) = (Finite (g p (snd (xs ! i))), Some (fst (xs ! i)))"
        using False by (simp add: e nearest_loop_snoc st)
      moreover have "\<forall>j<length (xs @ [e]). g p (snd (xs ! i)) \<le> g p (snd ((xs @ [e]) ! j))"
        using False mn by (auto simp: nth_append e less_Suc_eq)
      moreover have "\<forall>j<i. g p (snd (xs ! i)) < g p (snd ((xs @ [e]) ! j))"
        using fs i by (auto simp: nth_append)
      ultimately show ?thesis
        using i by (intro exI [of _ i]) (simp add: nth_append)
    qed
  qed
qed

text \<open>
  Claim C4. For every coordinate pair and every distance function, \<open>get_nearest_zipcode\<close>
  returns the zip code of an entry of the table of known locations whose distance to the
  pair is least among the entries, and every entry before it in the table is strictly
  farther: among entries at the same least distance the first one is returned. The table
  has entries, so the result is never \<open>None\<close>. As a function of its arguments the result is
  the same on every call with the same input.
\<close>

theorem get_nearest_zipcode_first_minimum:
  "\<exists>i<length known_zipcode_coords.
      get_nearest_zipcode geodesic lat lon = Some (fst (known_zipcode_coords ! i))
      \<and> (\<forall>j<length known_zipcode_coords.
            geodesic (lat, lon) (snd (known_zipcode_coords ! i))
              \<le> geodesic (lat, lon) (snd (known_zipcode_coords ! j)))
      \<and> (\<forall>j<i. geodesic (lat, lon) (snd (known_zipcode_coords ! i))
                  < geodesic (lat, lon) (snd (known_zipcode_coords ! j)))"
proof -
  have ne: "known_zipcode_coords \<noteq> []" by (simp add: known_zipcode_coords_def)
  from nearest_loop_first_min [OF ne, of geodesic "(lat, lon)"]
  show ?thesis unfolding get_nearest_zipcode_def by (elim exE conjE, intro exI) simp
qed

text \<open>When all seven distances tie, the first entry of the table, 95110, is returned.\<close>

theorem get_nearest_zipcode_tie_witness:
  "get_nearest_zipcode equidistant 37.3382 (- 121.8863) = Some ''95110''"
proof -
  from get_nearest_zipcode_first_minimum [of equidistant "37.3382" "- 121.8863"]
  obtain i where r: "get_nearest_zipcode equidistant 37.3382 (- 121.8863) = Some (fst (known_zipcode_coords ! i))"
    and f: "\<forall>j<i. equidistant (37.3382, - 121.8863) (snd (known_zipcode_coords ! i))
                  < equidistant (37.3382, - 121.8863) (snd (known_zipcode_coords ! j))"
    by blast
  have "i = 0"
  proof (rule ccontr)
    assume "i \<noteq> 0"
    then have "0 < i" by simp
    with f show False by (auto simp: equidistant_def)
  qed
  with r show ?thesis by (simp add: known_zipcode_coords_def)
qed

lemma get_nearest_zipcode_known:
  "\<exists>z. get_nearest_zipcode geodesic lat lon = Some z \<and> z \<in> set (map fst known_zipcode_coords)"
proof -
  have ne: "known_zipcode_coords \<noteq> []" by (simp add: known_zipcode_coords_def)
  from nearest_loop_first_min [OF ne, of geodesic "(lat, lon)"]
  obtain i where "i < length known_zipcode_coords"
    and "nearest_loop geodesic (lat, lon) known_zipcode_coords (PosInf, None)
           = (Finite (geodesic (lat, lon) (snd (known_zipcode_coords ! i))), Some (fst (known_zipcode_coords ! i)))"
    by blast
  then show ?thesis by (simp add: get_nearest_zipcode_def)
qed

lemma key_in_iff: "k \<in> fst ` set kvs \<longleftrightarrow> map_of kvs k \<noteq> None"
  by (simp add: map_of_eq_None_iff)

lemma lacks_postcode_falls_back:
  assumes "lacks_postcode data"
  shows "(case py_in ''address'' data of
            Inl e \<Rightarrow> Inl e
          | Inr False \<Rightarrow> Inr v
          | Inr True \<Rightarrow>
             (case py_getitem data ''address'' of
                Inl e \<Rightarrow> Inl e
              | Inr address \<Rightarrow>
                 (case py_in ''postcode'' address of
                    Inl e \<Rightarrow> Inl e
                  | Inr False \<Rightarrow> Inr v
                  | Inr True \<Rightarrow> py_getitem address ''postcode''))) = Inr v"
proof (cases data)
  case (JObj kvs)
  show ?thesis
  proof (cases "map_of kvs ''address''")
    case None
    then show ?thesis by (simp add: JObj key_in_iff)
  next
    case (Some a)
    with assms JObj obtain avs where a: "a = JObj avs" and p: "map_of avs ''postcode'' = None"
      by (cases a) simp_all
    show ?thesis using Some p by (simp add: JObj a key_in_iff)
  qed
qed (use assms in simp_all)

text \<open>
  Claim C3, as amended. When the geocoding call returns a response whose status is not 200,
  or a 200 response whose JSON object has no \<open>address\<close> entry or whose \<open>address\<close> object has
  no \<open>postcode\<close> entry, \<open>get_zipcode_from_coordinates\<close> returns the result of
  \<open>get_nearest_zipcode\<close>, which is the zip code of a known location and not \<open>None\<close>.
\<close>

theorem get_zipcode_falls_back:
  assumes "lookup_failed outcome"
  shows "get_zipcode_from_coordinates geodesic outcome lat lon = Inr (nearest_value geodesic lat lon)
       \<and> (\<exists>z. nearest_value geodesic lat lon = JStr z \<and> z \<in> set (map fst known_zipcode_coords))"
proof -
  have 1: "get_zipcode_from_coordinates geodesic outcome lat lon = Inr (nearest_value geodesic lat lon)"
  proof (cases outcome)
    case Request_Raises
    with assms show ?thesis by (simp add: lookup_failed_def)
  next
    case (Response sc b)
    show ?thesis
    proof (cases "sc = 200")
      case False
      then show ?thesis by (simp add: Response get_zipcode_from_coordinates_def)
    next
      case True
      with assms Response obtain data where b: "b = Json data" and l: "lacks_postcode data"
        by (cases b) (simp_all add: lookup_failed_def)
      show ?thesis
        unfolding get_zipcode_from_coordinates_def
        by (simp add: Response True b lacks_postcode_falls_back [OF l])
    qed
  qed
  from get_nearest_zipcode_known [of geodesic lat lon]
  obtain z where "get_nearest_zipcode geodesic lat lon = Some z"
    and "z \<in> set (map fst known_zipcode_coords)" by blast
  then have 2: "\<exists>z. nearest_value geodesic lat lon = JStr z \<and> z \<in> set (map fst known_zipcode_coords)"
    by (intro exI [of _ z]) (simp add: nearest_value_def)
  from 1 2 show ?thesis by blast
qed

text \<open>A 503 response: the fallback answers.\<close>

theorem get_zipcode_falls_back_witness:
  "lookup_failed (Response 503 Not_Json)
   \<and> get_zipcode_from_coordinates equidistant (Response 503 Not_Json) 37.3382 (- 121.8863)
       = Inr (nearest_value equidistant 37.3382 (- 121.8863))"
proof -
  have h: "lookup_failed (Response 503 Not_Json)" by (simp add: lookup_failed_def)
  from get_zipcode_falls_back [OF h, of equidistant "37.3382" "- 121.8863"] h
  show ?thesis by blast
qed

text \<open>
  Claim C3 as stated also covers a network error. There \<open>requests.get\<close> raises, nothing in
  the function catches the exception, and the fallback is not reached.
\<close>

theorem get_zipcode_request_raises:
  "get_zipcode_from_coordinates equidistant Request_Raises 37.3382 (- 121.8863) = Inl RequestException
   \<and> get_zipcode_from_coordinates equidistant Request_Raises 37.3382 (- 121.8863)
       \<noteq> Inr (nearest_value equidistant 37.3382 (- 121.8863))"
  by (simp add: get_zipcode_from_coordinates_def)

section \<open>The aggregator\<close>



lemma to_numeric_NaN: "to_numeric c = NaN \<longleftrightarrow> \<not> is_number c"
  by (cases c) simp_all



lemma row_kept:
  "(\<not> (c_pH (coerce_row (read_row r)) = NaN \<and> c_Turbidity (coerce_row (read_row r)) = NaN
        \<and> c_Dissolved_Oxygen (coerce_row (read_row r)) = NaN
        \<and> c_Nitrate (coerce_row (read_row r)) = NaN))
   \<longleftrightarrow> has_number r"
  by (simp add: coerce_row_def read_row_def to_numeric_NaN has_number_def)

lemma frame_of_Cons:
  "frame_of (r # rows) =
     (if has_number r then coerce_row (read_row r) # frame_of rows else frame_of rows)"
  using row_kept [of r] by (simp add: frame_of_def dropna_all_def read_csv_str_def)




lemma frame_keys:
  "set [z. Some z \<leftarrow> map c_Zipcode (frame_of rows)]
     = {z. \<exists>r\<in>set rows. has_number r \<and> read_str (f_Zipcode r) = Some z}"
proof (induction rows)
  case Nil
  show ?case by (simp add: frame_of_def dropna_all_def read_csv_str_def)
next
  case (Cons r rows)
  have z: "c_Zipcode (coerce_row (read_row r)) = read_str (f_Zipcode r)"
    by (simp add: coerce_row_def read_row_def)
  show ?case using Cons.IH
    by (cases "read_str (f_Zipcode r)") (auto simp: frame_of_Cons z)
qed


lemma summary_zip_codes:
  "map s_Zipcode (zipcode_summary mean rows)
     = sort (remdups [z. Some z \<leftarrow> map c_Zipcode (frame_of rows)])"
  by (simp add: zipcode_summary_def groupby_zipcode_mean_def frame_of_def group_mean_def
      Let_def comp_def)


lemma two_readings_summary:
  "zipcode_summary exact_mean two_readings =
     [\<lparr>s_Zipcode = ''95110'', s_pH = Finite 7.5, s_Turbidity = Finite 1,
       s_Dissolved_Oxygen = Finite 8, s_Nitrate = Finite 1\<rparr>]"
  by (simp add: zipcode_summary_def groupby_zipcode_mean_def group_mean_def dropna_all_def
      coerce_row_def read_csv_str_def read_row_def read_str_def na_values_def two_readings_def
      new_data_def sample_reading_def mean_skipna_def exact_mean_def Let_def)



text \<open>
  Claim C6, as amended. The summaries carry pairwise different zip codes, in ascending
  order, and the zip codes are exactly those of the rows of the file that have a zip code
  and a number in at least one of the four measurement fields. A file without rows gives no
  summary and no failure.
\<close>

theorem zipcode_summary_keys:
  "distinct (map s_Zipcode (zipcode_summary mean rows))
   \<and> sorted (map s_Zipcode (zipcode_summary mean rows))
   \<and> set (map s_Zipcode (zipcode_summary mean rows))
       = {z. \<exists>r\<in>set rows. has_number r \<and> read_str (f_Zipcode r) = Some z}
   \<and> zipcode_summary mean [] = []"
proof -
  have e: "zipcode_summary mean [] = []"
    by (simp add: zipcode_summary_def groupby_zipcode_mean_def dropna_all_def read_csv_str_def)
  have k: "set (sort (remdups [z. Some z \<leftarrow> map c_Zipcode (frame_of rows)]))
      = {z. \<exists>r\<in>set rows. has_number r \<and> read_str (f_Zipcode r) = Some z}"
    by (simp only: set_sort set_remdups frame_keys)
  have d: "distinct (sort (remdups [z. Some z \<leftarrow> map c_Zipcode (frame_of rows)]))"
    by (simp only: distinct_sort distinct_remdups)
  have o: "sorted (sort (remdups [z. Some z \<leftarrow> map c_Zipcode (frame_of rows)]))"
    by (rule sorted_sort)
  show ?thesis unfolding summary_zip_codes using e k d o by blast
qed

theorem zipcode_summary_keys_witness:
  "set (map s_Zipcode (zipcode_summary exact_mean two_readings)) = {''95110''}
   \<and> (\<exists>r\<in>set two_readings. has_number r \<and> read_str (f_Zipcode r) = Some ''95110'')"
proof -
  have "''95110'' \<in> set (map s_Zipcode (zipcode_summary exact_mean two_readings))"
    by (simp add: two_readings_summary)
  with zipcode_summary_keys [of exact_mean two_readings] show ?thesis
    by (simp add: two_readings_summary)
qed

text \<open>
  Claim C6 as stated asks for a summary for every zip code in the input. A row with no
  number in any of the four fields is dropped on line 31 before grouping: the file below
  has a row for 95110 and no summary.
\<close>

theorem zipcode_summary_drops_unreadable:
  "zipcode_summary exact_mean [unreadable_row] = []
   \<and> ''95110'' \<in> set (map f_Zipcode [unreadable_row])"
  by (simp add: zipcode_summary_def groupby_zipcode_mean_def dropna_all_def
      coerce_row_def read_csv_str_def read_row_def unreadable_row_def)

section \<open>The record store\<close>

lemma with_index_labels: "map fst (with_index xs) = map int [0..<length xs]"
  by (simp add: with_index_def)

lemma with_index_rows: "map snd (with_index xs) = xs"
  by (simp add: with_index_def)

lemma with_index_label_bounds:
  "idx \<in> set (map fst (with_index xs)) \<longleftrightarrow> 0 \<le> idx \<and> idx < int (length xs)"
proof -
  have "idx \<in> int ` {0..<length xs} \<longleftrightarrow> 0 \<le> idx \<and> idx < int (length xs)"
  proof
    assume "idx \<in> int ` {0..<length xs}"
    then show "0 \<le> idx \<and> idx < int (length xs)" by auto
  next
    assume "0 \<le> idx \<and> idx < int (length xs)"
    then have "nat idx \<in> {0..<length xs}" and "idx = int (nat idx)" by auto
    then show "idx \<in> int ` {0..<length xs}" by (rule_tac image_eqI)
  qed
  then show ?thesis by (simp add: with_index_labels)
qed

lemma with_index_distinct: "distinct (map fst (with_index xs))"
  by (simp add: with_index_labels distinct_map)

lemma with_index_snoc: "with_index (xs @ [x]) = with_index xs @ [(int (length xs), x)]"
  by (simp add: with_index_def)

lemma to_csv_with_index: "to_csv (with_index xs) = map write_row xs"
proof -
  have "to_csv (with_index xs) = map write_row (map snd (with_index xs))"
    by (simp add: to_csv_def case_prod_beta comp_def)
  then show ?thesis by (simp only: with_index_rows)
qed

lemma tail5_labels: "set (map fst (tail5 frame)) \<subseteq> set (map fst frame)"
  unfolding tail5_def by (metis drop_map set_drop_subset)

lemma tail5_distinct: "distinct (map fst frame) \<Longrightarrow> distinct (map fst (tail5 frame))"
  unfolding tail5_def by (simp add: drop_map [symmetric])

lemma tail5_last: "(idx, x) \<in> set (tail5 (frame @ [(idx, x)]))"
  by (simp add: tail5_def)

text \<open>A press that belongs to none of the buttons drawn leaves the file alone.\<close>

lemma delete_loop_not_pressed:
  "\<forall>idx\<in>set (map fst shown). pressed \<noteq> Some idx \<Longrightarrow>
     delete_loop pressed shown (recent_data, file) = (Inr (), file)"
  by (induction shown) auto

text \<open>A press on one of the buttons drawn drops that row and writes the rest.\<close>

lemma delete_loop_pressed:
  assumes "distinct (map fst shown)" and "idx \<in> set (map fst shown)"
    and "idx \<in> set (map fst recent_data)"
  shows "delete_loop (Some idx) shown (recent_data, file)
           = (Inr (), to_csv (filter (\<lambda>(label, row). label \<noteq> idx) recent_data))"
  using assms
proof (induction shown)
  case Nil
  then show ?case by simp
next
  case (Cons e shown)
  obtain i row where e: "e = (i, row)" by (cases e)
  show ?case
  proof (cases "i = idx")
    case True
    with Cons.prems(1) e have "\<forall>j\<in>set (map fst shown). Some idx \<noteq> Some j" by auto
    then have "delete_loop (Some idx) shown
                 (filter (\<lambda>(label, row). label \<noteq> idx) recent_data,
                  to_csv (filter (\<lambda>(label, row). label \<noteq> idx) recent_data))
               = (Inr (), to_csv (filter (\<lambda>(label, row). label \<noteq> idx) recent_data))"
      by (rule delete_loop_not_pressed)
    with True Cons.prems(3) show ?thesis by (simp add: e drop_label_def)
  next
    case False
    with Cons.prems e have "distinct (map fst shown)" and "idx \<in> set (map fst shown)" by auto
    with Cons.IH Cons.prems(3) False show ?thesis by (simp add: e)
  qed
qed

lemma review_entries_no_error: "fst (review_entries pressed file) = Inr ()"
proof (cases "with_index (read_csv_str file) = []")
  case True
  then show ?thesis by (simp add: review_entries_def)
next
  case False
  let ?frame = "with_index (read_csv_str file)"
  show ?thesis
  proof (cases "\<exists>idx\<in>set (map fst (tail5 ?frame)). pressed = Some idx")
    case True
    then obtain idx where i: "idx \<in> set (map fst (tail5 ?frame))" and p: "pressed = Some idx"
      by blast
    from i tail5_labels have "idx \<in> set (map fst ?frame)" by blast
    with i show ?thesis
      using False by (simp add: review_entries_def Let_def p
          delete_loop_pressed [OF tail5_distinct [OF with_index_distinct]])
  next
    case no: False
    then have "\<forall>idx\<in>set (map fst (tail5 ?frame)). pressed \<noteq> Some idx" by blast
    then show ?thesis
      using False by (simp add: review_entries_def Let_def delete_loop_not_pressed)
  qed
qed

lemma review_entries_missing_label:
  assumes "\<not> (0 \<le> idx \<and> idx < int (length (read_csv_str file)))"
  shows "review_entries (Some idx) file = (Inr (), file)"
proof -
  let ?frame = "with_index (read_csv_str file)"
  from assms have "idx \<notin> set (map fst ?frame)" by (simp only: with_index_label_bounds not_False_eq_True)
  with tail5_labels have "idx \<notin> set (map fst (tail5 ?frame))" by blast
  then have "\<forall>j\<in>set (map fst (tail5 ?frame)). Some idx \<noteq> Some j" by auto
  then show ?thesis by (simp add: review_entries_def Let_def delete_loop_not_pressed)
qed

lemma review_entries_last:
  "review_entries (Some (int (length rows))) (rows @ [x])
     = (Inr (), map write_row (read_csv_str rows))"
proof -
  let ?n = "int (length rows)"
  let ?old = "with_index (read_csv_str rows)"
  have len: "length (read_csv_str rows) = length rows" by (simp add: read_csv_str_def)
  have fr: "with_index (read_csv_str (rows @ [x])) = ?old @ [(?n, read_row x)]"
    by (simp add: read_csv_str_def with_index_snoc [of "map read_row rows", simplified])
  have shown: "?n \<in> set (map fst (tail5 (?old @ [(?n, read_row x)])))"
    using tail5_last [of ?n "read_row x" ?old] by (metis fst_conv image_eqI set_map)
  have inn: "?n \<in> set (map fst (?old @ [(?n, read_row x)]))" by simp
  have dist: "distinct (map fst (tail5 (?old @ [(?n, read_row x)])))"
    using tail5_distinct [OF with_index_distinct [of "read_csv_str (rows @ [x])"]]
    by (simp only: fr)
  have old: "\<forall>e\<in>set ?old. fst e \<noteq> ?n"
  proof
    fix e assume "e \<in> set ?old"
    then have "fst e \<in> set (map fst ?old)" by simp
    then have "fst e < int (length (read_csv_str rows))" by (simp only: with_index_label_bounds)
    then show "fst e \<noteq> ?n" by (simp add: len)
  qed
  then have flt: "filter (\<lambda>(label, row). label \<noteq> ?n) (?old @ [(?n, read_row x)]) = ?old"
    by (auto simp: filter_id_conv case_prod_beta)
  have "review_entries (Some ?n) (rows @ [x])
          = delete_loop (Some ?n) (tail5 (?old @ [(?n, read_row x)])) (?old @ [(?n, read_row x)], rows @ [x])"
    by (simp add: review_entries_def Let_def fr)
  also have "\<dots> = (Inr (), to_csv (filter (\<lambda>(label, row). label \<noteq> ?n) (?old @ [(?n, read_row x)])))"
    by (rule delete_loop_pressed [OF dist shown inn])
  finally show ?thesis by (simp only: flt to_csv_with_index)
qed

text \<open>
  Claim C7, as amended. For every file and every position that is not the index of one of
  its rows, negative positions and positions from the row count on included, a press on a
  delete button for that position deletes nothing and raises nothing, and the file is what
  it was: reading it gives the same rows as before. No press at all makes the section fail:
  \<open>drop\<close> is only reached with the label of a row of the frame just read.
\<close>

theorem review_entries_out_of_range:
  assumes "\<not> (0 \<le> idx \<and> idx < int (length (read_csv_str file)))"
  shows "review_entries (Some idx) file = (Inr (), file)
       \<and> read_csv_str (snd (review_entries (Some idx) file)) = read_csv_str file
       \<and> fst (review_entries pressed file) = Inr ()"
  using review_entries_missing_label [OF assms] review_entries_no_error [of pressed "file"]
  by simp

text \<open>Position 2 on a file with two rows.\<close>

theorem review_entries_out_of_range_witness:
  "\<not> (0 \<le> (2::int) \<and> 2 < int (length (read_csv_str two_readings)))
   \<and> review_entries (Some 2) two_readings = (Inr (), two_readings)"
proof -
  have h: "\<not> (0 \<le> (2::int) \<and> 2 < int (length (read_csv_str two_readings)))"
    by (simp add: read_csv_str_def two_readings_def)
  from review_entries_out_of_range [OF h] h show ?thesis by blast
qed

text \<open>
  Claim C7 as stated has the deletion fail with a bounds error. A press on "Delete Entry 1"
  that reaches the page when the file holds one row finds no such button: nothing fails.
\<close>

theorem review_entries_stale_button:
  "review_entries (Some 1) [new_data sample_reading] = (Inr (), [new_data sample_reading])"
  by (rule review_entries_missing_label) (simp add: read_csv_str_def)

lemma zip_code_not_na: "is_zip_code z \<Longrightarrow> z \<notin> set na_values"
  by (auto simp: is_zip_code_def na_values_def)

lemma read_new_data: "is_zip_code (r_zipcode r) \<Longrightarrow> read_row (new_data r) = as_read r"
  by (simp add: read_row_def new_data_def as_read_def read_str_def zip_code_not_na)

lemma read_str_write: "read_str (case read_str t of None \<Rightarrow> [] | Some z \<Rightarrow> z) = read_str t"
  by (simp add: read_str_def na_values_def)

lemma read_write_read: "read_row (write_row (read_row r)) = read_row r"
  by (simp add: read_row_def write_row_def read_str_write)

lemma read_written: "read_csv_str (map write_row (read_csv_str rows)) = read_csv_str rows"
  by (simp add: read_csv_str_def read_write_read)

text \<open>
  Claim C8, as amended. For every file and every reading whose zip code is five digits,
  after the reading is appended the rows read from the file are the rows read before
  followed by the reading; a press on the delete button of the last position then succeeds
  and the rows read are again the rows read before the append, one fewer. A file that was
  never written is created with the header alone and reads as no rows.
\<close>

theorem append_then_delete_last:
  assumes "is_zip_code (r_zipcode r)"
  shows "read_csv_str (append_reading r rows) = read_csv_str rows @ [as_read r]
       \<and> fst (review_entries (Some (int (length (read_csv_str rows)))) (append_reading r rows)) = Inr ()
       \<and> read_csv_str (snd (review_entries (Some (int (length (read_csv_str rows)))) (append_reading r rows)))
           = read_csv_str rows
       \<and> read_csv_str (create_if_missing None) = []"
proof -
  have a: "read_csv_str (append_reading r rows) = read_csv_str rows @ [as_read r]"
    using assms by (simp add: read_csv_str_def append_reading_def read_new_data)
  have l: "length (read_csv_str rows) = length rows" by (simp add: read_csv_str_def)
  have d: "review_entries (Some (int (length (read_csv_str rows)))) (append_reading r rows)
            = (Inr (), map write_row (read_csv_str rows))"
    by (simp only: l append_reading_def review_entries_last)
  have e: "read_csv_str (create_if_missing None) = []"
    by (simp add: create_if_missing_def read_csv_str_def)
  show ?thesis using a e by (simp add: d read_written)
qed

theorem append_then_delete_last_witness:
  "is_zip_code (r_zipcode sample_reading)
   \<and> read_csv_str (append_reading sample_reading []) = [as_read sample_reading]
   \<and> read_csv_str (snd (review_entries (Some 0) (append_reading sample_reading []))) = []"
proof -
  have h: "is_zip_code (r_zipcode sample_reading)"
    by (simp add: is_zip_code_def sample_reading_def)
  from append_then_delete_last [OF h, of "[]"] h show ?thesis
    by (simp add: read_csv_str_def)
qed

text \<open>
  Claim C8 as stated says the reading is no longer in the store after the deletion. The
  store keeps equal rows apart: when the same reading was already stored, the earlier row
  is still there.
\<close>

theorem duplicate_reading_remains:
  "as_read sample_reading
     \<in> set (read_csv_str (snd (review_entries (Some 1)
          (append_reading sample_reading (append_reading sample_reading (create_if_missing None))))))"
proof -
  have "review_entries (Some 1)
          (append_reading sample_reading (append_reading sample_reading (create_if_missing None)))
        = (Inr (), map write_row (read_csv_str [new_data sample_reading]))"
    using review_entries_last [of "[new_data sample_reading]" "new_data sample_reading"]
    by (simp add: append_reading_def create_if_missing_def)
  then show ?thesis
    by (simp add: read_csv_str_def read_row_def write_row_def new_data_def as_read_def
        sample_reading_def read_str_def na_values_def)
qed

text \<open>
  Claim C9. The claim is that every load returns the zip code as the string that was
  stored. The input page and the dashboard read the column with \<open>dtype=str\<close> and do; the
  learning page reads it with no dtype, so a stored 95110 comes back as the integer 95110
  and a stored 01234 as the integer 1234.
\<close>

theorem zip_code_read_as_integer:
  "map c_Zipcode (read_csv_str (append_reading sample_reading (create_if_missing None))) = [Some ''95110'']
   \<and> read_csv_zip_inferred (append_reading sample_reading (create_if_missing None)) = Int_Column [95110]
   \<and> read_csv_zip_inferred (append_reading (sample_reading\<lparr>r_zipcode := ''01234''\<rparr>) (create_if_missing None))
       = Int_Column [1234]"
  by (simp add: append_reading_def create_if_missing_def read_csv_str_def read_row_def new_data_def
      sample_reading_def read_str_def na_values_def read_csv_zip_inferred_def is_int_text_def
      int_of_digits_def digit_value_def)

end
